theory Spec2Isabelle
  imports Main
begin

section \<open>Configuration registry (src/lib/config.ts)\<close>

text \<open>
  The process environment \<^verbatim>\<open>process.env\<close> is a partial map from variable names to
  strings: an unset variable reads as \<^verbatim>\<open>undefined\<close>, here \<open>None\<close>.
\<close>

type_synonym env = "string \<rightharpoonup> string"

text \<open>
  JavaScript truthiness of a value of type \<^verbatim>\<open>string | undefined\<close>, as used by
  \<^verbatim>\<open>!!(a && b)\<close> and \<^verbatim>\<open>a || b\<close>: \<^verbatim>\<open>undefined\<close> and the empty string are falsy.
\<close>

definition truthy :: "string option \<Rightarrow> bool" where
  "truthy v = (case v of None \<Rightarrow> False | Some s \<Rightarrow> s \<noteq> [])"

text \<open>\<^verbatim>\<open>a || d\<close> for a string-or-undefined \<open>a\<close> and a string default \<open>d\<close>.\<close>

definition or_default :: "string option \<Rightarrow> string \<Rightarrow> string" where
  "or_default v d = (case v of None \<Rightarrow> d | Some s \<Rightarrow> if s = [] then d else s)"

text \<open>
  \<^verbatim>\<open>interface FeatureConfig { enabled: boolean; required?: boolean; fallback?: string }\<close>.
  The provider entries are intersections of \<^verbatim>\<open>FeatureConfig\<close> with their credential
  fields, here record extensions.
\<close>

record FeatureConfig =
  enabled :: bool
  required :: "bool option"
  fallback :: "string option"

record SupabaseConfig = FeatureConfig +
  url :: "string option"
  anonKey :: "string option"

record StripeConfig = FeatureConfig +
  publishableKey :: "string option"
  secretKey :: "string option"
  webhookSecret :: "string option"

record Auth0Config = FeatureConfig +
  domain :: "string option"
  clientId :: "string option"
  clientSecret :: "string option"

record SendgridConfig = FeatureConfig +
  apiKey :: "string option"

record AwsConfig = FeatureConfig +
  accessKeyId :: "string option"
  secretAccessKey :: "string option"
  region :: "string option"

record Features =
  authentication :: FeatureConfig
  database :: FeatureConfig
  payments :: FeatureConfig
  realtime :: FeatureConfig
  analytics :: FeatureConfig
  email :: FeatureConfig
  fileUpload :: FeatureConfig
  notifications :: FeatureConfig

record Providers =
  supabase :: SupabaseConfig
  stripe :: StripeConfig
  auth0 :: Auth0Config
  sendgrid :: SendgridConfig
  aws :: AwsConfig

text \<open>
  \<^verbatim>\<open>XionConfig\<close>; its \<^verbatim>\<open>ui\<close> and \<^verbatim>\<open>app\<close> sections are display metadata that no
  function below reads, and are left out.
\<close>

record XionConfig =
  features :: Features
  providers :: Providers

text \<open>The key types \<^verbatim>\<open>keyof XionConfig['features']\<close> and \<^verbatim>\<open>keyof XionConfig['providers']\<close>.\<close>

datatype FeatureName =
  Authentication | Database | Payments | Realtime | Analytics | Email | FileUpload | Notifications

datatype ProviderName = Supabase | Stripe | Auth0 | Sendgrid | Aws

text \<open>\<^verbatim>\<open>const defaultConfig: XionConfig = { ... }\<close>, evaluated once from the environment.\<close>

definition defaultConfig :: "env \<Rightarrow> XionConfig" where
  "defaultConfig e = \<lparr>
     features = \<lparr>
       authentication = \<lparr> enabled = (e ''NEXT_PUBLIC_ENABLE_AUTH'' = Some ''true''),
         required = Some False, fallback = Some ''No authentication required'' \<rparr>,
       database = \<lparr> enabled = (e ''NEXT_PUBLIC_ENABLE_DATABASE'' = Some ''true''),
         required = Some False, fallback = Some ''Using local storage'' \<rparr>,
       payments = \<lparr> enabled = (e ''NEXT_PUBLIC_ENABLE_PAYMENTS'' = Some ''true''),
         required = Some False, fallback = Some ''Payments disabled'' \<rparr>,
       realtime = \<lparr> enabled = (e ''NEXT_PUBLIC_ENABLE_REALTIME'' = Some ''true''),
         required = Some False, fallback = Some ''Real-time features disabled'' \<rparr>,
       analytics = \<lparr> enabled = (e ''NEXT_PUBLIC_ENABLE_ANALYTICS'' = Some ''true''),
         required = Some False, fallback = Some ''Analytics disabled'' \<rparr>,
       email = \<lparr> enabled = (e ''NEXT_PUBLIC_ENABLE_EMAIL'' = Some ''true''),
         required = Some False, fallback = Some ''Email features disabled'' \<rparr>,
       fileUpload = \<lparr> enabled = (e ''NEXT_PUBLIC_ENABLE_FILE_UPLOAD'' = Some ''true''),
         required = Some False, fallback = Some ''File upload disabled'' \<rparr>,
       notifications = \<lparr> enabled = (e ''NEXT_PUBLIC_ENABLE_NOTIFICATIONS'' = Some ''true''),
         required = Some False, fallback = Some ''Notifications disabled'' \<rparr> \<rparr>,
     providers = \<lparr>
       supabase = \<lparr>
         enabled = (truthy (e ''NEXT_PUBLIC_SUPABASE_URL'')
                    \<and> truthy (e ''NEXT_PUBLIC_SUPABASE_ANON_KEY'')),
         required = Some False, fallback = None,
         url = e ''NEXT_PUBLIC_SUPABASE_URL'',
         anonKey = e ''NEXT_PUBLIC_SUPABASE_ANON_KEY'' \<rparr>,
       stripe = \<lparr>
         enabled = (truthy (e ''NEXT_PUBLIC_STRIPE_PUBLISHABLE_KEY'')
                    \<and> truthy (e ''STRIPE_SECRET_KEY'')),
         required = Some False, fallback = None,
         publishableKey = e ''NEXT_PUBLIC_STRIPE_PUBLISHABLE_KEY'',
         secretKey = e ''STRIPE_SECRET_KEY'',
         webhookSecret = e ''STRIPE_WEBHOOK_SECRET'' \<rparr>,
       auth0 = \<lparr>
         enabled = (truthy (e ''AUTH0_DOMAIN'') \<and> truthy (e ''AUTH0_CLIENT_ID'')),
         required = Some False, fallback = None,
         domain = e ''AUTH0_DOMAIN'',
         clientId = e ''AUTH0_CLIENT_ID'',
         clientSecret = e ''AUTH0_CLIENT_SECRET'' \<rparr>,
       sendgrid = \<lparr>
         enabled = truthy (e ''SENDGRID_API_KEY''),
         required = Some False, fallback = None,
         apiKey = e ''SENDGRID_API_KEY'' \<rparr>,
       aws = \<lparr>
         enabled = (truthy (e ''AWS_ACCESS_KEY_ID'') \<and> truthy (e ''AWS_SECRET_ACCESS_KEY'')),
         required = Some False, fallback = None,
         accessKeyId = e ''AWS_ACCESS_KEY_ID'',
         secretAccessKey = e ''AWS_SECRET_ACCESS_KEY'',
         region = Some (or_default (e ''AWS_REGION'') ''us-east-1'') \<rparr> \<rparr> \<rparr>"

subsection \<open>Capability predicates\<close>

text \<open>The property read \<^verbatim>\<open>config.features[feature]\<close> for a key of the closed key type.\<close>

fun feature_entry :: "XionConfig \<Rightarrow> FeatureName \<Rightarrow> FeatureConfig" where
  "feature_entry c Authentication = authentication (features c)"
| "feature_entry c Database = database (features c)"
| "feature_entry c Payments = payments (features c)"
| "feature_entry c Realtime = realtime (features c)"
| "feature_entry c Analytics = analytics (features c)"
| "feature_entry c Email = email (features c)"
| "feature_entry c FileUpload = fileUpload (features c)"
| "feature_entry c Notifications = notifications (features c)"

text \<open>
  The value of \<^verbatim>\<open>config.providers[provider]\<close>: one of five differently shaped entries
  (\<^verbatim>\<open>XionConfig['providers'][T]\<close>).
\<close>

datatype ProviderConfig =
  SupabaseEntry SupabaseConfig
| StripeEntry StripeConfig
| Auth0Entry Auth0Config
| SendgridEntry SendgridConfig
| AwsEntry AwsConfig

fun provider_enabled :: "ProviderConfig \<Rightarrow> bool" where
  "provider_enabled (SupabaseEntry p) = enabled p"
| "provider_enabled (StripeEntry p) = enabled p"
| "provider_enabled (Auth0Entry p) = enabled p"
| "provider_enabled (SendgridEntry p) = enabled p"
| "provider_enabled (AwsEntry p) = enabled p"

definition isFeatureEnabled :: "XionConfig \<Rightarrow> FeatureName \<Rightarrow> bool" where
  "isFeatureEnabled c feature = enabled (feature_entry c feature)"

fun getProviderConfig :: "XionConfig \<Rightarrow> ProviderName \<Rightarrow> ProviderConfig" where
  "getProviderConfig c Supabase = SupabaseEntry (supabase (providers c))"
| "getProviderConfig c Stripe = StripeEntry (stripe (providers c))"
| "getProviderConfig c Auth0 = Auth0Entry (auth0 (providers c))"
| "getProviderConfig c Sendgrid = SendgridEntry (sendgrid (providers c))"
| "getProviderConfig c Aws = AwsEntry (aws (providers c))"

definition isProviderEnabled :: "XionConfig \<Rightarrow> ProviderName \<Rightarrow> bool" where
  "isProviderEnabled c provider = provider_enabled (getProviderConfig c provider)"

definition getFeatureFallback :: "XionConfig \<Rightarrow> FeatureName \<Rightarrow> string" where
  "getFeatureFallback c feature = or_default (fallback (feature_entry c feature)) ''Feature disabled''"

text \<open>
  The environment variable from which \<^verbatim>\<open>defaultConfig\<close> computes each feature's
  \<^verbatim>\<open>enabled\<close> flag (config.ts, lines 76 to 111).
\<close>

fun feature_env_var :: "FeatureName \<Rightarrow> string" where
  "feature_env_var Authentication = ''NEXT_PUBLIC_ENABLE_AUTH''"
| "feature_env_var Database = ''NEXT_PUBLIC_ENABLE_DATABASE''"
| "feature_env_var Payments = ''NEXT_PUBLIC_ENABLE_PAYMENTS''"
| "feature_env_var Realtime = ''NEXT_PUBLIC_ENABLE_REALTIME''"
| "feature_env_var Analytics = ''NEXT_PUBLIC_ENABLE_ANALYTICS''"
| "feature_env_var Email = ''NEXT_PUBLIC_ENABLE_EMAIL''"
| "feature_env_var FileUpload = ''NEXT_PUBLIC_ENABLE_FILE_UPLOAD''"
| "feature_env_var Notifications = ''NEXT_PUBLIC_ENABLE_NOTIFICATIONS''"


text \<open>
  The credential variables that \<^verbatim>\<open>defaultConfig\<close> tests when it computes each provider's
  \<^verbatim>\<open>enabled\<close> flag (config.ts, lines 119, 125, 132, 139 and 144).
\<close>

fun checked_credentials :: "ProviderName \<Rightarrow> string list" where
  "checked_credentials Supabase = [''NEXT_PUBLIC_SUPABASE_URL'', ''NEXT_PUBLIC_SUPABASE_ANON_KEY'']"
| "checked_credentials Stripe = [''NEXT_PUBLIC_STRIPE_PUBLISHABLE_KEY'', ''STRIPE_SECRET_KEY'']"
| "checked_credentials Auth0 = [''AUTH0_DOMAIN'', ''AUTH0_CLIENT_ID'']"
| "checked_credentials Sendgrid = [''SENDGRID_API_KEY'']"
| "checked_credentials Aws = [''AWS_ACCESS_KEY_ID'', ''AWS_SECRET_ACCESS_KEY'']"

text \<open>
  The specification's list of each provider's credential fields: hosted-db URL and
  anonymous key; hosted-payments publishable key, secret key and webhook secret;
  alternate-auth domain, client id and client secret; email-service API key;
  object-storage access key, secret and region. The specification's predicate holds when
  every listed field is present and non-empty.
\<close>

fun spec_required_credentials :: "ProviderName \<Rightarrow> string list" where
  "spec_required_credentials Supabase =
     [''NEXT_PUBLIC_SUPABASE_URL'', ''NEXT_PUBLIC_SUPABASE_ANON_KEY'']"
| "spec_required_credentials Stripe =
     [''NEXT_PUBLIC_STRIPE_PUBLISHABLE_KEY'', ''STRIPE_SECRET_KEY'', ''STRIPE_WEBHOOK_SECRET'']"
| "spec_required_credentials Auth0 =
     [''AUTH0_DOMAIN'', ''AUTH0_CLIENT_ID'', ''AUTH0_CLIENT_SECRET'']"
| "spec_required_credentials Sendgrid = [''SENDGRID_API_KEY'']"
| "spec_required_credentials Aws =
     [''AWS_ACCESS_KEY_ID'', ''AWS_SECRET_ACCESS_KEY'', ''AWS_REGION'']"

definition all_present :: "env \<Rightarrow> string list \<Rightarrow> bool" where
  "all_present e ks = list_all (\<lambda>k. truthy (e k)) ks"

definition spec_isProviderEnabled :: "env \<Rightarrow> ProviderName \<Rightarrow> bool" where
  "spec_isProviderEnabled e p = all_present e (spec_required_credentials p)"

subsection \<open>Errors\<close>

text \<open>
  What the code throws: \<^verbatim>\<open>new Error(message)\<close>, the runtime's \<^verbatim>\<open>TypeError\<close> for a
  property read on \<^verbatim>\<open>undefined\<close> or \<^verbatim>\<open>null\<close> and for a call of something that is no
  function, or the \<^verbatim>\<open>SyntaxError\<close> of \<^verbatim>\<open>JSON.parse\<close> (the messages of the last two depend
  on the engine and are not modelled). A throw inside an \<^verbatim>\<open>async\<close> method is the rejection of the returned promise;
  both are the \<open>Inl\<close> branch of a result.
\<close>

datatype js_error = Error string | TypeError | SyntaxError

fun error_name :: "js_error \<Rightarrow> string" where
  "error_name (Error m) = ''Error''"
| "error_name TypeError = ''TypeError''"
| "error_name SyntaxError = ''SyntaxError''"

definition failure_kind :: "js_error + 'a \<Rightarrow> string option" where
  "failure_kind r = (case r of Inl e \<Rightarrow> Some (error_name e) | Inr v \<Rightarrow> None)"

subsection \<open>The predicates on arbitrary strings\<close>

text \<open>
  The TypeScript parameter types admit only the keys above. The emitted JavaScript reads
  \<^verbatim>\<open>config.features[feature]\<close> for whatever string it is given: an own key gives the
  entry, a member inherited from \<^verbatim>\<open>Object.prototype\<close> gives that member, and any other
  name gives \<^verbatim>\<open>undefined\<close>, on which a further property read throws a \<^verbatim>\<open>TypeError\<close>.
\<close>

fun feature_key :: "FeatureName \<Rightarrow> string" where
  "feature_key Authentication = ''authentication''"
| "feature_key Database = ''database''"
| "feature_key Payments = ''payments''"
| "feature_key Realtime = ''realtime''"
| "feature_key Analytics = ''analytics''"
| "feature_key Email = ''email''"
| "feature_key FileUpload = ''fileUpload''"
| "feature_key Notifications = ''notifications''"

fun provider_key :: "ProviderName \<Rightarrow> string" where
  "provider_key Supabase = ''supabase''"
| "provider_key Stripe = ''stripe''"
| "provider_key Auth0 = ''auth0''"
| "provider_key Sendgrid = ''sendgrid''"
| "provider_key Aws = ''aws''"

definition all_features :: "FeatureName list" where
  "all_features =
     [Authentication, Database, Payments, Realtime, Analytics, Email, FileUpload, Notifications]"

definition all_providers :: "ProviderName list" where
  "all_providers = [Supabase, Stripe, Auth0, Sendgrid, Aws]"

definition feature_of_key :: "string \<Rightarrow> FeatureName option" where
  "feature_of_key name = find (\<lambda>f. feature_key f = name) all_features"

definition provider_of_key :: "string \<Rightarrow> ProviderName option" where
  "provider_of_key name = find (\<lambda>p. provider_key p = name) all_providers"

definition object_prototype_keys :: "string list" where
  "object_prototype_keys =
     [''constructor'', ''__defineGetter__'', ''__defineSetter__'', ''hasOwnProperty'',
      ''__lookupGetter__'', ''__lookupSetter__'', ''isPrototypeOf'', ''propertyIsEnumerable'',
      ''toString'', ''valueOf'', ''__proto__'', ''toLocaleString'']"

datatype js_value =
  JUndefined
| JBoolean bool
| JString string
| JFeatureConfig FeatureConfig
| JProviderConfig ProviderConfig
| JInherited string

definition features_get :: "XionConfig \<Rightarrow> string \<Rightarrow> js_value" where
  "features_get c name =
     (case feature_of_key name of
        Some f \<Rightarrow> JFeatureConfig (feature_entry c f)
      | None \<Rightarrow> if name \<in> set object_prototype_keys then JInherited name else JUndefined)"

definition providers_get :: "XionConfig \<Rightarrow> string \<Rightarrow> js_value" where
  "providers_get c name =
     (case provider_of_key name of
        Some p \<Rightarrow> JProviderConfig (getProviderConfig c p)
      | None \<Rightarrow> if name \<in> set object_prototype_keys then JInherited name else JUndefined)"

text \<open>The property reads \<^verbatim>\<open>v.enabled\<close> and \<^verbatim>\<open>v.fallback\<close>.\<close>

fun read_enabled :: "js_value \<Rightarrow> js_error + js_value" where
  "read_enabled JUndefined = Inl TypeError"
| "read_enabled (JFeatureConfig f) = Inr (JBoolean (enabled f))"
| "read_enabled (JProviderConfig p) = Inr (JBoolean (provider_enabled p))"
| "read_enabled v = Inr JUndefined"

fun read_fallback :: "js_value \<Rightarrow> js_error + js_value" where
  "read_fallback JUndefined = Inl TypeError"
| "read_fallback (JFeatureConfig f) =
     Inr (case fallback f of None \<Rightarrow> JUndefined | Some s \<Rightarrow> JString s)"
| "read_fallback v = Inr JUndefined"

definition isFeatureEnabled_js :: "XionConfig \<Rightarrow> string \<Rightarrow> js_error + js_value" where
  "isFeatureEnabled_js c name = read_enabled (features_get c name)"

definition isProviderEnabled_js :: "XionConfig \<Rightarrow> string \<Rightarrow> js_error + js_value" where
  "isProviderEnabled_js c name = read_enabled (providers_get c name)"

definition getFeatureFallback_js :: "XionConfig \<Rightarrow> string \<Rightarrow> js_error + js_value" where
  "getFeatureFallback_js c name =
     (case read_fallback (features_get c name) of
        Inl err \<Rightarrow> Inl err
      | Inr (JString s) \<Rightarrow> Inr (JString (if s = [] then ''Feature disabled'' else s))
      | Inr v \<Rightarrow> Inr (JString ''Feature disabled''))"

definition getProviderConfig_js :: "XionConfig \<Rightarrow> string \<Rightarrow> js_error + js_value" where
  "getProviderConfig_js c name = Inr (providers_get c name)"

subsection \<open>Validation\<close>

record ValidationResult =
  valid :: bool
  errors :: "string list"

text \<open>\<^verbatim>\<open>Object.entries(config.features)\<close>: the entries in the order of the object literal.\<close>

definition features_entries :: "Features \<Rightarrow> (string \<times> FeatureConfig) list" where
  "features_entries fs =
     [(''authentication'', authentication fs), (''database'', database fs),
      (''payments'', payments fs), (''realtime'', realtime fs),
      (''analytics'', analytics fs), (''email'', email fs),
      (''fileUpload'', fileUpload fs), (''notifications'', notifications fs)]"

definition required_message :: "string \<Rightarrow> string" where
  "required_message feature =
     ''Required feature '' @ [CHR 0x27] @ feature @ [CHR 0x27] @ '' is disabled''"

text \<open>The body of the \<^verbatim>\<open>forEach\<close> callback; \<^verbatim>\<open>errors.push\<close> appends.\<close>

fun check_required :: "string list \<Rightarrow> string \<times> FeatureConfig \<Rightarrow> string list" where
  "check_required errs (feature, cfg) =
     (if required cfg = Some True \<and> \<not> enabled cfg
      then errs @ [required_message feature] else errs)"

definition database_error :: string where
  "database_error = ''Database feature enabled but Supabase provider not configured''"

definition payments_error :: string where
  "payments_error = ''Payments feature enabled but Stripe provider not configured''"

definition email_error :: string where
  "email_error = ''Email feature enabled but SendGrid provider not configured''"

definition validateConfig :: "XionConfig \<Rightarrow> ValidationResult" where
  "validateConfig c =
     (let errors0 = foldl check_required [] (features_entries (features c));
          errors1 = (if enabled (database (features c)) \<and> \<not> enabled (supabase (providers c))
                     then errors0 @ [database_error] else errors0);
          errors2 = (if enabled (payments (features c)) \<and> \<not> enabled (stripe (providers c))
                     then errors1 @ [payments_error] else errors1);
          errors3 = (if enabled (email (features c)) \<and> \<not> enabled (sendgrid (providers c))
                     then errors2 @ [email_error] else errors2)
      in \<lparr> valid = (length errors3 = 0), errors = errors3 \<rparr>)"

text \<open>
  The specification's reading of validation: a fixed list of rules, each violated or not,
  each with its own message.
\<close>

datatype rule =
  RequiredFeature FeatureName
| DatabaseNeedsSupabase
| PaymentsNeedsStripe
| EmailNeedsSendgrid

fun violated :: "XionConfig \<Rightarrow> rule \<Rightarrow> bool" where
  "violated c (RequiredFeature f) =
     (required (feature_entry c f) = Some True \<and> \<not> isFeatureEnabled c f)"
| "violated c DatabaseNeedsSupabase =
     (isFeatureEnabled c Database \<and> \<not> isProviderEnabled c Supabase)"
| "violated c PaymentsNeedsStripe =
     (isFeatureEnabled c Payments \<and> \<not> isProviderEnabled c Stripe)"
| "violated c EmailNeedsSendgrid =
     (isFeatureEnabled c Email \<and> \<not> isProviderEnabled c Sendgrid)"

fun rule_message :: "rule \<Rightarrow> string" where
  "rule_message (RequiredFeature f) = required_message (feature_key f)"
| "rule_message DatabaseNeedsSupabase = database_error"
| "rule_message PaymentsNeedsStripe = payments_error"
| "rule_message EmailNeedsSendgrid = email_error"

definition all_rules :: "rule list" where
  "all_rules = map RequiredFeature all_features
               @ [DatabaseNeedsSupabase, PaymentsNeedsStripe, EmailNeedsSendgrid]"

text \<open>The configuration with the stripe provider made enabled and nothing else changed.\<close>

definition enable_stripe :: "XionConfig \<Rightarrow> XionConfig" where
  "enable_stripe c = c\<lparr> providers := (providers c)\<lparr> stripe := (stripe (providers c))\<lparr> enabled := True \<rparr> \<rparr> \<rparr>"

text \<open>A message mentions a name when it contains it, letter case aside.\<close>

definition lower_char :: "char \<Rightarrow> char" where
  "lower_char ch =
     (case map_of (zip ''ABCDEFGHIJKLMNOPQRSTUVWXYZ'' ''abcdefghijklmnopqrstuvwxyz'') ch of
        None \<Rightarrow> ch | Some l \<Rightarrow> l)"

fun starts_with :: "'a list \<Rightarrow> 'a list \<Rightarrow> bool" where
  "starts_with ys [] = True"
| "starts_with [] (x # xs) = False"
| "starts_with (y # ys) (x # xs) = (x = y \<and> starts_with ys xs)"

fun contains :: "'a list \<Rightarrow> 'a list \<Rightarrow> bool" where
  "contains [] xs = starts_with [] xs"
| "contains (y # ys) xs = (starts_with (y # ys) xs \<or> contains ys xs)"

definition mentions :: "string \<Rightarrow> string \<Rightarrow> bool" where
  "mentions msg name = contains (map lower_char msg) (map lower_char name)"

section \<open>Provider factories\<close>

datatype DatabaseProvider =
  SupabaseDatabaseProvider | LocalStorageDatabaseProvider | NoDatabaseProvider

datatype AuthProvider =
  SupabaseAuthProvider | Auth0Provider | MockAuthProvider | NoAuthProvider

text \<open>
  \<^verbatim>\<open>getDatabaseProvider\<close> (database.ts) and \<^verbatim>\<open>getAuthProvider\<close> (auth.ts). The module-level
  \<^verbatim>\<open>config\<close> is \<open>defaultConfig\<close> of the same environment from which
  \<^verbatim>\<open>process.env.NODE_ENV\<close> is read. The result is the class that is instantiated, or the
  error thrown.
\<close>

definition getDatabaseProvider :: "env \<Rightarrow> js_error + DatabaseProvider" where
  "getDatabaseProvider e =
     (let config = defaultConfig e in
      if \<not> isFeatureEnabled config Database then Inr NoDatabaseProvider
      else if isProviderEnabled config Supabase then Inr SupabaseDatabaseProvider
      else if e ''NODE_ENV'' = Some ''development'' then Inr LocalStorageDatabaseProvider
      else Inl (Error ''Supabase is required for database functionality''))"

definition getAuthProvider :: "env \<Rightarrow> js_error + AuthProvider" where
  "getAuthProvider e =
     (let config = defaultConfig e in
      if \<not> isFeatureEnabled config Authentication then Inr NoAuthProvider
      else if isProviderEnabled config Supabase then Inr SupabaseAuthProvider
      else if isProviderEnabled config Auth0 then Inr Auth0Provider
      else if e ''NODE_ENV'' = Some ''development'' then Inr MockAuthProvider
      else Inr NoAuthProvider)"

text \<open>Concrete environments used to exercise the definitions.\<close>

definition production_env :: env where
  "production_env =
     [''NODE_ENV'' \<mapsto> ''production'',
      ''NEXT_PUBLIC_ENABLE_DATABASE'' \<mapsto> ''true'',
      ''NEXT_PUBLIC_ENABLE_AUTH'' \<mapsto> ''true'']"

definition stripe_env :: env where
  "stripe_env =
     [''NEXT_PUBLIC_STRIPE_PUBLISHABLE_KEY'' \<mapsto> ''pk_test_1'',
      ''STRIPE_SECRET_KEY'' \<mapsto> ''sk_test_1'']"

definition two_field_env :: env where
  "two_field_env =
     [''NEXT_PUBLIC_STRIPE_PUBLISHABLE_KEY'' \<mapsto> ''pk_test_1'',
      ''STRIPE_SECRET_KEY'' \<mapsto> ''sk_test_1'',
      ''AUTH0_DOMAIN'' \<mapsto> ''example.auth0.com'',
      ''AUTH0_CLIENT_ID'' \<mapsto> ''client_1'',
      ''AWS_ACCESS_KEY_ID'' \<mapsto> ''AKIA1'',
      ''AWS_SECRET_ACCESS_KEY'' \<mapsto> ''secret_1'']"

definition payments_only_env :: env where
  "payments_only_env = [''NEXT_PUBLIC_ENABLE_PAYMENTS'' \<mapsto> ''true'']"

section \<open>Disabled providers\<close>

text \<open>
  The operation sets of the three provider interfaces. The classes \<^verbatim>\<open>NoAuthProvider\<close>,
  \<^verbatim>\<open>NoDatabaseProvider\<close> and \<^verbatim>\<open>NoPaymentProvider\<close> take no arguments and hold no state,
  so each is a function from the operation to its outcome.
\<close>

datatype AuthOp = SignIn | SignUp | SignOut | GetCurrentUser | ResetPassword | UpdateProfile

datatype DatabaseOp = DbQuery | DbInsert | DbUpdate | DbDelete | DbFindById | DbFindMany

datatype PaymentOp =
  CreateCheckoutSession | CreateSubscription | CancelSubscription
| GetCustomer | CreateCustomer | GetPaymentMethods

text \<open>\<^verbatim>\<open>interface User\<close> (auth.ts).\<close>

record User =
  user_id :: string
  user_email :: string
  user_name :: "string option"
  avatar :: "string option"
  role :: "string option"
  metadata :: "(string \<times> string) list option"

text \<open>What an auth operation resolves to: \<^verbatim>\<open>User | null\<close>, or nothing (\<^verbatim>\<open>void\<close>).\<close>

datatype AuthResult = UserOrNull "User option" | Void

fun NoAuthProvider_op :: "AuthOp \<Rightarrow> js_error + AuthResult" where
  "NoAuthProvider_op SignIn = Inl (Error ''Authentication is disabled'')"
| "NoAuthProvider_op SignUp = Inl (Error ''Authentication is disabled'')"
| "NoAuthProvider_op SignOut = Inr Void"
| "NoAuthProvider_op GetCurrentUser = Inr (UserOrNull None)"
| "NoAuthProvider_op ResetPassword = Inl (Error ''Authentication is disabled'')"
| "NoAuthProvider_op UpdateProfile = Inl (Error ''Authentication is disabled'')"

fun NoDatabaseProvider_op :: "DatabaseOp \<Rightarrow> js_error + 'a" where
  "NoDatabaseProvider_op DbQuery = Inl (Error ''Database is disabled'')"
| "NoDatabaseProvider_op DbInsert = Inl (Error ''Database is disabled'')"
| "NoDatabaseProvider_op DbUpdate = Inl (Error ''Database is disabled'')"
| "NoDatabaseProvider_op DbDelete = Inl (Error ''Database is disabled'')"
| "NoDatabaseProvider_op DbFindById = Inl (Error ''Database is disabled'')"
| "NoDatabaseProvider_op DbFindMany = Inl (Error ''Database is disabled'')"

fun NoPaymentProvider_op :: "PaymentOp \<Rightarrow> js_error + 'a" where
  "NoPaymentProvider_op CreateCheckoutSession = Inl (Error ''Payments are disabled'')"
| "NoPaymentProvider_op CreateSubscription = Inl (Error ''Payments are disabled'')"
| "NoPaymentProvider_op CancelSubscription = Inl (Error ''Payments are disabled'')"
| "NoPaymentProvider_op GetCustomer = Inl (Error ''Payments are disabled'')"
| "NoPaymentProvider_op CreateCustomer = Inl (Error ''Payments are disabled'')"
| "NoPaymentProvider_op GetPaymentMethods = Inl (Error ''Payments are disabled'')"

text \<open>
  The code has no error classes of its own. The specification's error kind
  CapabilityDisabled is read here in the most generous way: an outcome is of that kind
  when it is a thrown \<^verbatim>\<open>Error\<close> whose message is one of the three "disabled" messages.
\<close>

definition spec_CapabilityDisabled :: "js_error + 'a \<Rightarrow> bool" where
  "spec_CapabilityDisabled r =
     (case r of
        Inl (Error m) \<Rightarrow>
          m = ''Authentication is disabled'' \<or> m = ''Database is disabled''
          \<or> m = ''Payments are disabled''
      | Inl TypeError \<Rightarrow> False
      | Inl SyntaxError \<Rightarrow> False
      | Inr v \<Rightarrow> False)"

section \<open>Mock auth provider\<close>

text \<open>
  \<^verbatim>\<open>s.split(sep)\<close> for a one-character separator: the pieces between the occurrences of
  the separator, never an empty array.
\<close>

fun split_on :: "char \<Rightarrow> string \<Rightarrow> string list" where
  "split_on sep [] = [[]]"
| "split_on sep (ch # cs) =
     (if ch = sep then [] # split_on sep cs
      else (case split_on sep cs of
              [] \<Rightarrow> [[ch]]
            | w # ws \<Rightarrow> (ch # w) # ws))"

text \<open>\<^verbatim>\<open>arr[0]\<close>: the first element, \<^verbatim>\<open>undefined\<close> on an empty array.\<close>

definition index0 :: "'a list \<Rightarrow> 'a option" where
  "index0 xs = (case xs of [] \<Rightarrow> None | x # _ \<Rightarrow> Some x)"

text \<open>
  \<^verbatim>\<open>private users: Map<string, User>\<close>. A JavaScript \<^verbatim>\<open>Map\<close> iterates in insertion order,
  and \<^verbatim>\<open>set\<close> on a key already present replaces the value in place.
\<close>

type_synonym UserMap = "(string \<times> User) list"

fun map_set :: "string \<Rightarrow> User \<Rightarrow> UserMap \<Rightarrow> UserMap" where
  "map_set k v [] = [(k, v)]"
| "map_set k v ((k', v') # rest) =
     (if k' = k then (k, v) # rest else (k', v') # map_set k v rest)"

text \<open>
  The methods of \<^verbatim>\<open>MockAuthProvider\<close>, each taking the \<^verbatim>\<open>users\<close> map and returning its
  outcome together with the map afterwards. \<^verbatim>\<open>Date.now()\<close> is passed in as its decimal
  rendering.
\<close>

definition MockAuthProvider_signIn ::
  "UserMap \<Rightarrow> string \<Rightarrow> string \<Rightarrow> js_error + (User option \<times> UserMap)" where
  "MockAuthProvider_signIn users email_addr password =
     (let user = \<lparr> user_id = ''mock-user-1'', user_email = email_addr,
                    user_name = index0 (split_on (CHR ''@'') email_addr),
                    avatar = None, role = Some ''user'', metadata = None \<rparr>
      in Inr (Some user, map_set email_addr user users))"

definition MockAuthProvider_signUp ::
  "UserMap \<Rightarrow> string \<Rightarrow> string \<Rightarrow> string option \<Rightarrow> string
     \<Rightarrow> js_error + (User option \<times> UserMap)" where
  "MockAuthProvider_signUp users email_addr password name now_ms =
     (let user = \<lparr> user_id = ''mock-user-'' @ now_ms, user_email = email_addr,
                    user_name = (if truthy name then name
                                 else index0 (split_on (CHR ''@'') email_addr)),
                    avatar = None, role = Some ''user'', metadata = None \<rparr>
      in Inr (Some user, map_set email_addr user users))"

definition MockAuthProvider_signOut :: "UserMap \<Rightarrow> js_error + (unit \<times> UserMap)" where
  "MockAuthProvider_signOut users = Inr ((), users)"

definition MockAuthProvider_getCurrentUser ::
  "UserMap \<Rightarrow> js_error + (User option \<times> UserMap)" where
  "MockAuthProvider_getCurrentUser users =
     Inr (case users of [] \<Rightarrow> None | (k, u) # rest \<Rightarrow> Some u, users)"

text \<open>Sequencing of two awaited calls: the second runs on the state the first left.\<close>

definition and_then ::
  "js_error + ('a \<times> 's) \<Rightarrow> ('s \<Rightarrow> js_error + ('b \<times> 's)) \<Rightarrow> js_error + ('b \<times> 's)" where
  "and_then r f = (case r of Inl err \<Rightarrow> Inl err | Inr (x, s) \<Rightarrow> f s)"

section \<open>Local-storage database provider\<close>

text \<open>
  The values \<^verbatim>\<open>JSON.parse\<close> returns and \<^verbatim>\<open>JSON.stringify\<close> writes back unchanged. An object
  is its partial map from keys to values, an absent key being \<^verbatim>\<open>undefined\<close>; deep
  equality of objects does not depend on key order, so it is equality of these maps.
\<close>

datatype json =
  JsonNull
| JsonBool bool
| JsonNumber int
| JsonString string
| JsonArray "json list"
| JsonObject "string \<Rightarrow> json option"

















text \<open>
  The values \<^verbatim>\<open>insert\<close> reads from its surroundings: the decimal rendering of
  \<^verbatim>\<open>Date.now()\<close>, the nine characters cut from \<^verbatim>\<open>Math.random().toString(36)\<close>, and the
  two \<^verbatim>\<open>new Date().toISOString()\<close> timestamps.
\<close>

record Ambient =
  now_ms :: string
  random36 :: string
  created_iso :: string
  updated_iso :: string





section \<open>Concrete inputs\<close>

definition ab_user :: User where
  "ab_user = \<lparr> user_id = ''mock-user-1'', user_email = ''a@b.com'', user_name = Some ''a'',
               avatar = None, role = Some ''user'', metadata = None \<rparr>"


















section \<open>Auxiliary facts\<close>

lemma truthy_simps: "truthy None = False" "truthy (Some s) = (s \<noteq> [])"
  by (simp_all add: truthy_def)

lemma isProviderEnabled_defaultConfig:
  "isProviderEnabled (defaultConfig e) p = all_present e (checked_credentials p)"
  by (cases p) (simp_all add: isProviderEnabled_def defaultConfig_def all_present_def)

lemma all_present_remove: "k \<in> set ks \<Longrightarrow> \<not> all_present (e(k := None)) ks"
  by (auto simp: all_present_def list_all_iff truthy_simps)

lemma all_present_other: "k \<notin> set ks \<Longrightarrow> all_present (e(k := v)) ks = all_present e ks"
  by (induction ks) (auto simp: all_present_def)

subsection \<open>Validation\<close>

lemma foldl_check_required:
  "foldl check_required acc xs =
     acc @ concat (map (\<lambda>(n, cfg). if required cfg = Some True \<and> \<not> enabled cfg
                                   then [required_message n] else []) xs)"
  by (induction xs arbitrary: acc) auto

lemma feature_key_inj: "feature_key f = feature_key g \<Longrightarrow> f = g"
  by (cases f; cases g) simp_all

lemma required_message_inj: "required_message a = required_message b \<Longrightarrow> a = b"
  by (simp add: required_message_def)

lemma hd_rule_message:
  "hd (rule_message r) =
     (case r of RequiredFeature f \<Rightarrow> CHR ''R'' | DatabaseNeedsSupabase \<Rightarrow> CHR ''D''
      | PaymentsNeedsStripe \<Rightarrow> CHR ''P'' | EmailNeedsSendgrid \<Rightarrow> CHR ''E'')"
  by (cases r)
     (simp_all add: required_message_def database_error_def payments_error_def email_error_def)

lemma inj_rule_message: "inj rule_message"
proof (rule injI)
  fix r s assume eq: "rule_message r = rule_message s"
  then have "hd (rule_message r) = hd (rule_message s)" by simp
  then have same:
    "(case r of RequiredFeature f \<Rightarrow> CHR ''R'' | DatabaseNeedsSupabase \<Rightarrow> CHR ''D''
      | PaymentsNeedsStripe \<Rightarrow> CHR ''P'' | EmailNeedsSendgrid \<Rightarrow> CHR ''E'')
     = (case s of RequiredFeature f \<Rightarrow> CHR ''R'' | DatabaseNeedsSupabase \<Rightarrow> CHR ''D''
      | PaymentsNeedsStripe \<Rightarrow> CHR ''P'' | EmailNeedsSendgrid \<Rightarrow> CHR ''E'')"
    by (simp only: hd_rule_message)
  show "r = s"
  proof (cases r)
    case (RequiredFeature f)
    with same obtain g where s: "s = RequiredFeature g" by (cases s) simp_all
    with eq RequiredFeature have "feature_key f = feature_key g"
      by (simp add: required_message_inj)
    then show ?thesis using s RequiredFeature by (simp add: feature_key_inj)
  qed (use same in \<open>cases s; simp\<close>)+
qed

lemma features_entries_map:
  "features_entries (features c) = map (\<lambda>f. (feature_key f, feature_entry c f)) all_features"
  by (simp add: features_entries_def all_features_def)

lemma required_rules_messages:
  "map rule_message (filter (violated c) (map RequiredFeature fs)) =
     concat (map (\<lambda>f. if required (feature_entry c f) = Some True \<and> \<not> enabled (feature_entry c f)
                        then [required_message (feature_key f)] else []) fs)"
  by (induction fs) (simp_all add: isFeatureEnabled_def)

lemma push_if: "(if P then xs @ [m] else xs) = xs @ (if P then [m] else [])"
  by simp

lemma errors_validateConfig:
  "errors (validateConfig c) = map rule_message (filter (violated c) all_rules)"
proof -
  have req: "foldl check_required [] (features_entries (features c)) =
      map rule_message (filter (violated c) (map RequiredFeature all_features))"
    unfolding foldl_check_required features_entries_map required_rules_messages
    by (simp add: comp_def)
  have deps:
    "map rule_message
       (filter (violated c) [DatabaseNeedsSupabase, PaymentsNeedsStripe, EmailNeedsSendgrid])
      = (if enabled (database (features c)) \<and> \<not> enabled (supabase (providers c))
         then [database_error] else [])
      @ (if enabled (payments (features c)) \<and> \<not> enabled (stripe (providers c))
         then [payments_error] else [])
      @ (if enabled (email (features c)) \<and> \<not> enabled (sendgrid (providers c))
         then [email_error] else [])"
    by (simp add: isFeatureEnabled_def isProviderEnabled_def)
  show ?thesis
    unfolding validateConfig_def Let_def push_if req all_rules_def filter_append map_append deps
    by simp
qed

lemma distinct_all_rules: "distinct all_rules"
  by (simp add: all_rules_def all_features_def)

lemma all_rules_complete: "r \<in> set all_rules"
proof (cases r)
  case (RequiredFeature f)
  then show ?thesis by (cases f) (simp_all add: all_rules_def all_features_def)
qed (simp_all add: all_rules_def)

lemma valid_validateConfig: "valid (validateConfig c) = (errors (validateConfig c) = [])"
  by (simp add: validateConfig_def Let_def)

lemma violated_enable_stripe:
  "violated (enable_stripe c) r = (violated c r \<and> r \<noteq> PaymentsNeedsStripe)"
  by (cases r; (cases "case r of RequiredFeature f \<Rightarrow> f | _ \<Rightarrow> Authentication")?)
     (auto simp: enable_stripe_def isFeatureEnabled_def isProviderEnabled_def)

lemma filter_removeAll: "filter (\<lambda>r. P r \<and> r \<noteq> x) xs = removeAll x (filter P xs)"
  by (induction xs) auto

lemma errors_enable_stripe:
  "errors (validateConfig (enable_stripe c)) = removeAll payments_error (errors (validateConfig c))"
proof -
  have "filter (violated (enable_stripe c)) all_rules
        = filter (\<lambda>r. violated c r \<and> r \<noteq> PaymentsNeedsStripe) all_rules"
    by (rule filter_cong) (simp_all add: violated_enable_stripe)
  also have "\<dots> = removeAll PaymentsNeedsStripe (filter (violated c) all_rules)"
    by (rule filter_removeAll)
  finally show ?thesis
    unfolding errors_validateConfig
    using map_removeAll_inj [OF inj_rule_message, of PaymentsNeedsStripe] by simp
qed

lemma mentions_payments:
  "mentions payments_error ''payments''" "mentions payments_error ''stripe''"
  by (simp_all add: mentions_def payments_error_def lower_char_def)

lemma count_list_map_inj: "inj f \<Longrightarrow> count_list (map f xs) (f x) = count_list xs x"
  by (induction xs) (auto dest: injD)

lemma count_list_distinct: "distinct xs \<Longrightarrow> count_list xs x = (if x \<in> set xs then 1 else 0)"
  by (induction xs) auto

lemma count_errors:
  "count_list (errors (validateConfig c)) (rule_message r) = (if violated c r then 1 else 0)"
  unfolding errors_validateConfig
  by (simp add: count_list_map_inj [OF inj_rule_message] count_list_distinct distinct_all_rules
      all_rules_complete)

subsection \<open>Lookup by name\<close>

lemma feature_of_key_feature_key: "feature_of_key (feature_key f) = Some f"
  by (cases f) (simp_all add: feature_of_key_def all_features_def)

lemma provider_of_key_provider_key: "provider_of_key (provider_key p) = Some p"
  by (cases p) (simp_all add: provider_of_key_def all_providers_def)

lemma feature_of_key_unknown:
  "name \<notin> set (map feature_key all_features) \<Longrightarrow> feature_of_key name = None"
  by (auto simp: feature_of_key_def find_None_iff)

lemma provider_of_key_unknown:
  "name \<notin> set (map provider_key all_providers) \<Longrightarrow> provider_of_key name = None"
  by (auto simp: provider_of_key_def find_None_iff)

text \<open>
  On the keys of the closed sets the predicates on strings return what the typed
  predicates return, and do not fail.
\<close>

lemma predicates_agree_on_enumerated_names:
  "isFeatureEnabled_js c (feature_key f) = Inr (JBoolean (isFeatureEnabled c f))"
  "isProviderEnabled_js c (provider_key p) = Inr (JBoolean (isProviderEnabled c p))"
  "getFeatureFallback_js c (feature_key f) = Inr (JString (getFeatureFallback c f))"
  "getProviderConfig_js c (provider_key p) = Inr (JProviderConfig (getProviderConfig c p))"
  by (simp_all add: isFeatureEnabled_js_def isProviderEnabled_js_def getFeatureFallback_js_def
      getProviderConfig_js_def features_get_def providers_get_def feature_of_key_feature_key
      provider_of_key_provider_key isFeatureEnabled_def isProviderEnabled_def
      getFeatureFallback_def or_default_def split: option.split)

subsection \<open>Strings, maps and tables\<close>

lemma index0_split_on: "index0 (split_on sep s) = Some (takeWhile (\<lambda>ch. ch \<noteq> sep) s)"
proof (induction s)
  case Nil
  show ?case by (simp add: index0_def)
next
  case (Cons a s)
  then show ?case
    by (cases "split_on sep s") (auto simp: index0_def)
qed

lemma first_after_set:
  "map_set k v users =
     (if users = [] \<or> fst (hd users) = k then (k, v) else hd users) # tl (map_set k v users)"
  by (cases users) auto








section \<open>Provider selection\<close>

text \<open>
  Claim C1. In production (\<^verbatim>\<open>NODE_ENV\<close> is not \<^verbatim>\<open>'development'\<close>) with the supabase
  provider disabled: when the database feature is enabled, \<^verbatim>\<open>getDatabaseProvider\<close> throws
  an explicit error; when the authentication feature is enabled and the auth0 provider
  is disabled as well, \<^verbatim>\<open>getAuthProvider\<close> returns the disabled stub and does not throw.
\<close>

theorem getDatabaseProvider_throws_getAuthProvider_degrades:
  assumes "e ''NODE_ENV'' \<noteq> Some ''development''"
    and "\<not> isProviderEnabled (defaultConfig e) Supabase"
  shows "(isFeatureEnabled (defaultConfig e) Database \<longrightarrow>
            getDatabaseProvider e
              = Inl (Error ''Supabase is required for database functionality''))
       \<and> (isFeatureEnabled (defaultConfig e) Authentication
            \<and> \<not> isProviderEnabled (defaultConfig e) Auth0 \<longrightarrow>
            getAuthProvider e = Inr NoAuthProvider)"
  using assms by (simp add: getDatabaseProvider_def getAuthProvider_def Let_def)

text \<open>
  Claim C1, at a concrete production environment with both features switched on and no
  credentials.
\<close>

theorem getDatabaseProvider_throws_getAuthProvider_degrades_witness:
  "production_env ''NODE_ENV'' \<noteq> Some ''development''
   \<and> \<not> isProviderEnabled (defaultConfig production_env) Supabase
   \<and> isFeatureEnabled (defaultConfig production_env) Database
   \<and> isFeatureEnabled (defaultConfig production_env) Authentication
   \<and> \<not> isProviderEnabled (defaultConfig production_env) Auth0
   \<and> getDatabaseProvider production_env
       = Inl (Error ''Supabase is required for database functionality'')
   \<and> getAuthProvider production_env = Inr NoAuthProvider"
proof -
  have a: "production_env ''NODE_ENV'' \<noteq> Some ''development''"
    by (simp add: production_env_def)
  have b: "\<not> isProviderEnabled (defaultConfig production_env) Supabase"
    by (simp add: production_env_def isProviderEnabled_def defaultConfig_def truthy_simps)
  have c: "isFeatureEnabled (defaultConfig production_env) Database"
    "isFeatureEnabled (defaultConfig production_env) Authentication"
    "\<not> isProviderEnabled (defaultConfig production_env) Auth0"
    by (simp_all add: production_env_def isFeatureEnabled_def isProviderEnabled_def
        defaultConfig_def truthy_simps)
  from getDatabaseProvider_throws_getAuthProvider_degrades [OF a b] a b c
  show ?thesis by simp
qed

section \<open>Disabled providers\<close>

text \<open>
  Claim C2, as stated, fails: on the disabled auth provider \<^verbatim>\<open>signOut\<close> completes
  successfully and \<^verbatim>\<open>getCurrentUser\<close> successfully returns \<^verbatim>\<open>null\<close>; neither is an error
  of any kind.
\<close>

theorem NoAuthProvider_signOut_succeeds:
  "NoAuthProvider_op SignOut = Inr Void
   \<and> NoAuthProvider_op GetCurrentUser = Inr (UserOrNull None)
   \<and> \<not> spec_CapabilityDisabled (NoAuthProvider_op SignOut)
   \<and> \<not> spec_CapabilityDisabled (NoAuthProvider_op GetCurrentUser)"
  by (simp add: spec_CapabilityDisabled_def)

text \<open>
  Claim C2, amended. Every database operation and every payments operation of the
  disabled provider, and the auth operations \<^verbatim>\<open>signIn\<close>, \<^verbatim>\<open>signUp\<close>, \<^verbatim>\<open>resetPassword\<close> and
  \<^verbatim>\<open>updateProfile\<close>, reject with an \<^verbatim>\<open>Error\<close> whose message says that the capability is
  disabled. The disabled auth provider's \<^verbatim>\<open>signOut\<close> succeeds as a no-op and its
  \<^verbatim>\<open>getCurrentUser\<close> succeeds with \<^verbatim>\<open>null\<close>.
\<close>

theorem disabled_provider_outcomes:
  "NoDatabaseProvider_op dop = Inl (Error ''Database is disabled'')
   \<and> NoPaymentProvider_op pop = Inl (Error ''Payments are disabled'')
   \<and> NoAuthProvider_op aop =
       (if aop = SignOut then Inr Void
        else if aop = GetCurrentUser then Inr (UserOrNull None)
        else Inl (Error ''Authentication is disabled''))
   \<and> spec_CapabilityDisabled (NoDatabaseProvider_op dop)
   \<and> spec_CapabilityDisabled (NoPaymentProvider_op pop)
   \<and> spec_CapabilityDisabled (NoAuthProvider_op aop)
       = (aop \<noteq> SignOut \<and> aop \<noteq> GetCurrentUser)"
  by (cases dop; cases pop; cases aop) (simp_all add: spec_CapabilityDisabled_def)

section \<open>Feature flags\<close>

text \<open>
  Claim C3. For every feature of the enumerated set and every environment,
  \<^verbatim>\<open>isFeatureEnabled\<close> is true exactly when the feature's \<^verbatim>\<open>NEXT_PUBLIC_ENABLE_*\<close>
  variable is the string \<^verbatim>\<open>"true"\<close>; the values \<^verbatim>\<open>"TRUE"\<close> and \<^verbatim>\<open>"1"\<close> and an unset
  variable all give false.
\<close>

theorem isFeatureEnabled_iff_literal_true:
  "(isFeatureEnabled (defaultConfig e) f \<longleftrightarrow> e (feature_env_var f) = Some ''true'')
   \<and> \<not> isFeatureEnabled (defaultConfig (e(feature_env_var f \<mapsto> ''TRUE''))) f
   \<and> \<not> isFeatureEnabled (defaultConfig (e(feature_env_var f \<mapsto> ''1''))) f
   \<and> \<not> isFeatureEnabled (defaultConfig (e(feature_env_var f := None))) f"
  by (cases f) (simp_all add: isFeatureEnabled_def defaultConfig_def)

section \<open>Provider credentials\<close>

text \<open>
  Claim C4, as stated, fails: in an environment that sets only the publishable key and
  the secret key of stripe, the domain and the client id of auth0, and the two access
  keys of aws, all three providers are enabled, although the webhook secret, the client
  secret and the region, which the claim lists, are absent.
\<close>

theorem stripe_enabled_without_webhook_secret:
  "isProviderEnabled (defaultConfig two_field_env) Stripe
   \<and> two_field_env ''STRIPE_WEBHOOK_SECRET'' = None
   \<and> \<not> spec_isProviderEnabled two_field_env Stripe
   \<and> isProviderEnabled (defaultConfig two_field_env) Auth0
   \<and> two_field_env ''AUTH0_CLIENT_SECRET'' = None
   \<and> \<not> spec_isProviderEnabled two_field_env Auth0
   \<and> isProviderEnabled (defaultConfig two_field_env) Aws
   \<and> two_field_env ''AWS_REGION'' = None
   \<and> \<not> spec_isProviderEnabled two_field_env Aws"
  by (simp add: two_field_env_def isProviderEnabled_def defaultConfig_def
      spec_isProviderEnabled_def all_present_def truthy_simps)

text \<open>
  Claim C4, amended. \<^verbatim>\<open>isProviderEnabled\<close> is true exactly when every credential that the
  code tests is present and non-empty: URL and anonymous key for supabase, publishable
  key and secret key for stripe, domain and client id for auth0, API key for sendgrid,
  access key id and secret access key for aws. Removing any one of these makes the
  result false; any other variable, among them the stripe webhook secret, the auth0
  client secret and the aws region, has no effect on it.
\<close>

theorem isProviderEnabled_iff_checked_credentials:
  "(isProviderEnabled (defaultConfig e) p \<longleftrightarrow> all_present e (checked_credentials p))
   \<and> (k \<in> set (checked_credentials p) \<longrightarrow>
        \<not> isProviderEnabled (defaultConfig (e(k := None))) p)
   \<and> (k' \<notin> set (checked_credentials p) \<longrightarrow>
        isProviderEnabled (defaultConfig (e(k' := v))) p
          = isProviderEnabled (defaultConfig e) p)"
  unfolding isProviderEnabled_defaultConfig
  using all_present_remove all_present_other by blast

text \<open>
  Claim C4, amended, at the stripe provider: removing the secret key disables it, adding
  a webhook secret changes nothing.
\<close>

theorem isProviderEnabled_iff_checked_credentials_witness:
  "isProviderEnabled (defaultConfig stripe_env) Stripe
   \<and> ''STRIPE_SECRET_KEY'' \<in> set (checked_credentials Stripe)
   \<and> \<not> isProviderEnabled (defaultConfig (stripe_env(''STRIPE_SECRET_KEY'' := None))) Stripe
   \<and> ''STRIPE_WEBHOOK_SECRET'' \<notin> set (checked_credentials Stripe)
   \<and> isProviderEnabled
        (defaultConfig (stripe_env(''STRIPE_WEBHOOK_SECRET'' \<mapsto> ''whsec_1''))) Stripe"
proof -
  have present: "all_present stripe_env (checked_credentials Stripe)"
    by (simp add: all_present_def stripe_env_def truthy_simps)
  have checked: "''STRIPE_SECRET_KEY'' \<in> set (checked_credentials Stripe)"
    and ignored: "''STRIPE_WEBHOOK_SECRET'' \<notin> set (checked_credentials Stripe)"
    by simp_all
  from isProviderEnabled_iff_checked_credentials
         [of stripe_env Stripe "''STRIPE_SECRET_KEY''" "''STRIPE_WEBHOOK_SECRET''"
             "Some ''whsec_1''"]
       present checked ignored
  show ?thesis by simp
qed


section \<open>Validation\<close>

text \<open>
  Claim C5. \<^verbatim>\<open>validateConfig\<close> is a total function of the configuration (it has no
  failing step). Its \<^verbatim>\<open>valid\<close> field is true exactly when its \<^verbatim>\<open>errors\<close> list is empty. The
  list is, in order, the message of every violated rule: one rule for each feature
  (required and disabled), then database without supabase, payments without stripe,
  email without sendgrid; so each rule's message occurs once when the rule is violated and
  not at all otherwise. The payments message mentions the feature name and the provider
  name. When payments is enabled and stripe is not, the message is there once, and
  enabling stripe removes that message and changes nothing else.
\<close>

theorem validateConfig_one_error_per_rule:
  "valid (validateConfig c) = (errors (validateConfig c) = [])
   \<and> errors (validateConfig c) = map rule_message (filter (violated c) all_rules)
   \<and> count_list (errors (validateConfig c)) (rule_message r) = (if violated c r then 1 else 0)
   \<and> mentions payments_error (feature_key Payments)
   \<and> mentions payments_error (provider_key Stripe)
   \<and> (isFeatureEnabled c Payments \<and> \<not> isProviderEnabled c Stripe \<longrightarrow>
        count_list (errors (validateConfig c)) payments_error = 1
        \<and> errors (validateConfig (enable_stripe c))
            = removeAll payments_error (errors (validateConfig c))
        \<and> valid (validateConfig (enable_stripe c))
            = (removeAll payments_error (errors (validateConfig c)) = []))"
proof -
  have pay: "count_list (errors (validateConfig c)) payments_error = 1"
    if "isFeatureEnabled c Payments \<and> \<not> isProviderEnabled c Stripe"
    using that count_errors [of c PaymentsNeedsStripe] by simp
  show ?thesis
  proof (intro conjI impI)
    show "errors (validateConfig c) = map rule_message (filter (violated c) all_rules)"
      by (rule errors_validateConfig)
  qed (simp_all add: valid_validateConfig count_errors mentions_payments pay
        errors_enable_stripe)
qed

text \<open>
  Claim C5, at the configuration of an environment that enables payments and sets no
  stripe key: the only error is the payments one, and it is gone once stripe is enabled.
\<close>

theorem validateConfig_one_error_per_rule_witness:
  "isFeatureEnabled (defaultConfig payments_only_env) Payments
   \<and> \<not> isProviderEnabled (defaultConfig payments_only_env) Stripe
   \<and> errors (validateConfig (defaultConfig payments_only_env)) = [payments_error]
   \<and> \<not> valid (validateConfig (defaultConfig payments_only_env))
   \<and> errors (validateConfig (enable_stripe (defaultConfig payments_only_env))) = []
   \<and> valid (validateConfig (enable_stripe (defaultConfig payments_only_env)))"
proof -
  have on: "isFeatureEnabled (defaultConfig payments_only_env) Payments"
    and off: "\<not> isProviderEnabled (defaultConfig payments_only_env) Stripe"
    by (simp_all add: payments_only_env_def defaultConfig_def isFeatureEnabled_def
        isProviderEnabled_def truthy_def)
  have errs: "errors (validateConfig (defaultConfig payments_only_env)) = [payments_error]"
    by (simp add: validateConfig_def Let_def features_entries_def payments_only_env_def
        defaultConfig_def truthy_def)
  from validateConfig_one_error_per_rule
         [of "defaultConfig payments_only_env" PaymentsNeedsStripe] on off errs
  show ?thesis by simp
qed

section \<open>Names outside the enumerated sets\<close>

text \<open>
  Claim C6, as stated, fails. The parameter types are erased in the emitted JavaScript,
  which takes any string. Given \<^verbatim>\<open>auth\<close>, which is no feature key, and \<^verbatim>\<open>paypal\<close>, which
  is no provider key, three of the predicates throw the runtime's \<^verbatim>\<open>TypeError\<close> and
  \<^verbatim>\<open>getProviderConfig\<close> returns \<^verbatim>\<open>undefined\<close> without failing; given \<^verbatim>\<open>toString\<close>, a member
  every object inherits, \<^verbatim>\<open>isFeatureEnabled\<close> returns \<^verbatim>\<open>undefined\<close> without failing.
\<close>

theorem unknown_name_untyped_fault:
  "isFeatureEnabled_js (defaultConfig production_env) ''auth'' = Inl TypeError
   \<and> isProviderEnabled_js (defaultConfig production_env) ''paypal'' = Inl TypeError
   \<and> getFeatureFallback_js (defaultConfig production_env) ''auth'' = Inl TypeError
   \<and> getProviderConfig_js (defaultConfig production_env) ''paypal'' = Inr JUndefined
   \<and> isFeatureEnabled_js (defaultConfig production_env) ''toString'' = Inr JUndefined
   \<and> failure_kind (isFeatureEnabled_js (defaultConfig production_env) ''auth'') = Some ''TypeError''"
  by (simp add: failure_kind_def isFeatureEnabled_js_def isProviderEnabled_js_def
      getFeatureFallback_js_def getProviderConfig_js_def features_get_def providers_get_def
      feature_of_key_def provider_of_key_def all_features_def all_providers_def
      object_prototype_keys_def)

text \<open>
  Claim C6, amended. For every name outside the closed enumerated set of features
  (respectively providers) no predicate fails with an UnknownCapability error. When the
  name is not a member inherited from \<^verbatim>\<open>Object.prototype\<close>, \<^verbatim>\<open>isFeatureEnabled\<close>,
  \<^verbatim>\<open>isProviderEnabled\<close> and \<^verbatim>\<open>getFeatureFallback\<close> throw the runtime's \<^verbatim>\<open>TypeError\<close> and
  \<^verbatim>\<open>getProviderConfig\<close> returns \<^verbatim>\<open>undefined\<close>. When it is such a member,
  \<^verbatim>\<open>isFeatureEnabled\<close> and \<^verbatim>\<open>isProviderEnabled\<close> return \<^verbatim>\<open>undefined\<close>,
  \<^verbatim>\<open>getFeatureFallback\<close> returns the default text and \<^verbatim>\<open>getProviderConfig\<close> returns the
  inherited member.
\<close>

theorem predicates_on_unknown_names:
  "(name \<notin> set (map feature_key all_features) \<longrightarrow>
      isFeatureEnabled_js c name
        = (if name \<in> set object_prototype_keys then Inr JUndefined else Inl TypeError)
    \<and> getFeatureFallback_js c name
        = (if name \<in> set object_prototype_keys then Inr (JString ''Feature disabled'')
           else Inl TypeError))
   \<and> (name \<notin> set (map provider_key all_providers) \<longrightarrow>
      isProviderEnabled_js c name
        = (if name \<in> set object_prototype_keys then Inr JUndefined else Inl TypeError)
    \<and> getProviderConfig_js c name
        = Inr (if name \<in> set object_prototype_keys then JInherited name else JUndefined))"
proof (intro conjI impI)
  assume out: "name \<notin> set (map feature_key all_features)"
  have get: "features_get c name
      = (if name \<in> set object_prototype_keys then JInherited name else JUndefined)"
    by (simp add: features_get_def feature_of_key_unknown [OF out])
  show "isFeatureEnabled_js c name
        = (if name \<in> set object_prototype_keys then Inr JUndefined else Inl TypeError)"
    by (simp add: isFeatureEnabled_js_def get)
  show "getFeatureFallback_js c name
        = (if name \<in> set object_prototype_keys then Inr (JString ''Feature disabled'')
           else Inl TypeError)"
    by (simp add: getFeatureFallback_js_def get)
next
  assume out: "name \<notin> set (map provider_key all_providers)"
  have get: "providers_get c name
      = (if name \<in> set object_prototype_keys then JInherited name else JUndefined)"
    by (simp add: providers_get_def provider_of_key_unknown [OF out])
  show "isProviderEnabled_js c name
        = (if name \<in> set object_prototype_keys then Inr JUndefined else Inl TypeError)"
    by (simp add: isProviderEnabled_js_def get)
  show "getProviderConfig_js c name
        = Inr (if name \<in> set object_prototype_keys then JInherited name else JUndefined)"
    by (simp add: getProviderConfig_js_def get)
qed

text \<open>
  Claim C6, amended, at the name \<^verbatim>\<open>auth\<close>, which is in neither set and not inherited, and
  at the inherited name \<^verbatim>\<open>toString\<close>.
\<close>

theorem predicates_on_unknown_names_witness:
  "''auth'' \<notin> set (map feature_key all_features)
   \<and> ''auth'' \<notin> set (map provider_key all_providers)
   \<and> ''auth'' \<notin> set object_prototype_keys
   \<and> isFeatureEnabled_js (defaultConfig production_env) ''auth'' = Inl TypeError
   \<and> getFeatureFallback_js (defaultConfig production_env) ''auth'' = Inl TypeError
   \<and> isProviderEnabled_js (defaultConfig production_env) ''auth'' = Inl TypeError
   \<and> getProviderConfig_js (defaultConfig production_env) ''auth'' = Inr JUndefined
   \<and> ''toString'' \<notin> set (map feature_key all_features)
   \<and> ''toString'' \<in> set object_prototype_keys
   \<and> isFeatureEnabled_js (defaultConfig production_env) ''toString'' = Inr JUndefined
   \<and> getFeatureFallback_js (defaultConfig production_env) ''toString''
       = Inr (JString ''Feature disabled'')"
proof -
  have out: "''auth'' \<notin> set (map feature_key all_features)"
    "''auth'' \<notin> set (map provider_key all_providers)"
    "''auth'' \<notin> set object_prototype_keys"
    "''toString'' \<notin> set (map feature_key all_features)"
    by (simp_all add: all_features_def all_providers_def object_prototype_keys_def)
  have inh: "''toString'' \<in> set object_prototype_keys"
    by (simp add: object_prototype_keys_def)
  from predicates_on_unknown_names [of "''auth''" "defaultConfig production_env"]
       predicates_on_unknown_names [of "''toString''" "defaultConfig production_env"] out inh
  show ?thesis by simp
qed

section \<open>Mock auth provider\<close>

text \<open>
  Claim C7, as stated, fails: on the mock provider, after \<^verbatim>\<open>signIn("a@b.com", "x")\<close> and
  then \<^verbatim>\<open>signOut()\<close>, \<^verbatim>\<open>getCurrentUser()\<close> returns the user, not \<^verbatim>\<open>null\<close>.
\<close>

theorem mock_signOut_keeps_user:
  "and_then (and_then (MockAuthProvider_signIn [] ''a@b.com'' ''x'') MockAuthProvider_signOut)
      MockAuthProvider_getCurrentUser
   = Inr (Some ab_user, [(''a@b.com'', ab_user)])"
  by (simp add: and_then_def MockAuthProvider_signIn_def MockAuthProvider_signOut_def
      MockAuthProvider_getCurrentUser_def index0_def ab_user_def Let_def)

text \<open>
  Claim C7, amended. On the mock auth provider \<^verbatim>\<open>signOut\<close> always succeeds and leaves the
  users map as it was, so calling it again changes nothing; \<^verbatim>\<open>getCurrentUser\<close> is a pure
  read that leaves the map as it was. After a successful \<^verbatim>\<open>signIn\<close> followed by
  \<^verbatim>\<open>signOut\<close>, \<^verbatim>\<open>getCurrentUser\<close> returns a user, not \<^verbatim>\<open>null\<close>: the user just signed in
  when the map was empty or began with that email, and otherwise the first user stored
  earlier.
\<close>

theorem mock_signOut_noop:
  "MockAuthProvider_signOut users = Inr ((), users)
   \<and> and_then (MockAuthProvider_signOut users) MockAuthProvider_signOut
       = MockAuthProvider_signOut users
   \<and> map_sum id snd (MockAuthProvider_getCurrentUser users) = Inr users
   \<and> (MockAuthProvider_signIn users email_addr password = Inr (Some u, users') \<longrightarrow>
        and_then (MockAuthProvider_signOut users') MockAuthProvider_getCurrentUser
          = Inr (Some (if users = [] \<or> fst (hd users) = email_addr then u
                       else snd (hd users)), users'))"
proof -
  have "and_then (MockAuthProvider_signOut (map_set email_addr w users))
          MockAuthProvider_getCurrentUser
          = Inr (Some (if users = [] \<or> fst (hd users) = email_addr then w
                       else snd (hd users)),
                 map_set email_addr w users)" for w
    by (subst (1 2) first_after_set)
       (simp add: and_then_def MockAuthProvider_signOut_def MockAuthProvider_getCurrentUser_def
          split: prod.split)
  then show ?thesis
    by (auto simp: MockAuthProvider_signIn_def MockAuthProvider_signOut_def and_then_def
        MockAuthProvider_getCurrentUser_def Let_def)
qed

text \<open>Claim C7, amended, at the sign-in of \<^verbatim>\<open>a@b.com\<close> on an empty users map.\<close>

theorem mock_signOut_noop_witness:
  "MockAuthProvider_signIn [] ''a@b.com'' ''x'' = Inr (Some ab_user, [(''a@b.com'', ab_user)])
   \<and> and_then (MockAuthProvider_signOut [(''a@b.com'', ab_user)]) MockAuthProvider_getCurrentUser
        = Inr (Some ab_user, [(''a@b.com'', ab_user)])"
proof -
  have h: "MockAuthProvider_signIn [] ''a@b.com'' ''x''
             = Inr (Some ab_user, [(''a@b.com'', ab_user)])"
    by (simp add: MockAuthProvider_signIn_def index0_def ab_user_def Let_def)
  from mock_signOut_noop [of "[]" "''a@b.com''" "''x''" ab_user "[(''a@b.com'', ab_user)]"] h
  show ?thesis by simp
qed

text \<open>
  Claim C8. On the mock auth provider, for every email containing \<^verbatim>\<open>@\<close> and every
  password, \<^verbatim>\<open>signIn\<close> succeeds and returns a user whose name is the part of the email
  before its first \<^verbatim>\<open>@\<close>, and a \<^verbatim>\<open>getCurrentUser\<close> on the state it leaves returns a user,
  not \<^verbatim>\<open>null\<close>.
\<close>

theorem mock_signIn_local_part:
  assumes "CHR ''@'' \<in> set email_addr"
  shows "\<exists>u users' local rest.
           MockAuthProvider_signIn users email_addr password = Inr (Some u, users')
         \<and> user_name u = Some local
         \<and> email_addr = local @ CHR ''@'' # rest \<and> CHR ''@'' \<notin> set local
         \<and> (\<exists>v. MockAuthProvider_getCurrentUser users' = Inr (Some v, users'))"
proof -
  let ?local = "takeWhile (\<lambda>ch. ch \<noteq> CHR ''@'') email_addr"
  let ?tail = "dropWhile (\<lambda>ch. ch \<noteq> CHR ''@'') email_addr"
  from assms have "?tail \<noteq> []" by (simp add: dropWhile_eq_Nil_conv)
  moreover have "hd ?tail = CHR ''@''"
    using hd_dropWhile [OF \<open>?tail \<noteq> []\<close>] by simp
  ultimately have tl: "?tail = CHR ''@'' # tl ?tail" by (cases ?tail) auto
  have decomp: "email_addr = ?local @ CHR ''@'' # tl ?tail"
    using takeWhile_dropWhile_id [of "\<lambda>ch. ch \<noteq> CHR ''@''" email_addr] tl by simp
  have clean: "CHR ''@'' \<notin> set ?local"
    using set_takeWhileD by fastforce
  have nonempty: "map_set email_addr w users \<noteq> []" for w
    by (cases users) (auto split: if_splits)
  have cur: "\<exists>v. MockAuthProvider_getCurrentUser (map_set email_addr w users)
                = Inr (Some v, map_set email_addr w users)" for w
    using nonempty [of w]
    by (cases "map_set email_addr w users") (auto simp: MockAuthProvider_getCurrentUser_def)
  show ?thesis
    unfolding MockAuthProvider_signIn_def Let_def index0_split_on
    using decomp clean cur by auto
qed

text \<open>Claim C8, at \<^verbatim>\<open>signIn("a@b.com", "x")\<close> on an empty users map.\<close>

theorem mock_signIn_local_part_witness:
  "CHR ''@'' \<in> set ''a@b.com''
   \<and> MockAuthProvider_signIn [] ''a@b.com'' ''x'' = Inr (Some ab_user, [(''a@b.com'', ab_user)])
   \<and> user_name ab_user = Some ''a''
   \<and> MockAuthProvider_getCurrentUser [(''a@b.com'', ab_user)]
       = Inr (Some ab_user, [(''a@b.com'', ab_user)])"
proof -
  have at: "CHR ''@'' \<in> set ''a@b.com''" by simp
  from mock_signIn_local_part [OF at, of "[]" "''x''"] at
  show ?thesis
    by (simp add: MockAuthProvider_signIn_def MockAuthProvider_getCurrentUser_def index0_def
        ab_user_def Let_def)
qed

section \<open>Local-storage database provider\<close>








end
